theory Spec2Isabelle
  imports Main
begin

section \<open>Framework values, diagnostics and strings\<close>

text \<open>
  An attribute value of the plugin framework (\<^verbatim>\<open>types.String\<close>, \<^verbatim>\<open>types.Int64\<close>,
  \<^verbatim>\<open>types.Bool\<close>) is null, unknown or known. The accessors return the zero value of
  the Go type for a null or unknown value.
\<close>

datatype 'a tfval = Null | Unknown | Known 'a

fun IsNull :: "'a tfval \<Rightarrow> bool" where
  "IsNull Null = True"
| "IsNull Unknown = False"
| "IsNull (Known v) = False"

fun ValueString :: "string tfval \<Rightarrow> string" where
  "ValueString (Known s) = s"
| "ValueString Null = []"
| "ValueString Unknown = []"

fun ValueInt64 :: "int tfval \<Rightarrow> int" where
  "ValueInt64 (Known i) = i"
| "ValueInt64 Null = 0"
| "ValueInt64 Unknown = 0"

fun ValueBool :: "bool tfval \<Rightarrow> bool" where
  "ValueBool (Known b) = b"
| "ValueBool Null = False"
| "ValueBool Unknown = False"

text \<open>
  Go errors as values: a failed \<^verbatim>\<open>strconv.Atoi\<close> with the string it was given, an error of
  the client with its text, the template lookup that found no field with the name it
  looked for, and an error wrapped by \<^verbatim>\<open>fmt.Errorf\<close> under a prefix.
\<close>

datatype atoi_error = ErrSyntax | ErrRange

datatype go_error =
    AtoiError string atoi_error
  | ClientError string
  | FieldNotInTemplate string
  | Errorf string go_error

text \<open>
  A diagnostic carries a summary and a detail; only errors make an operation fail. A detail
  that is formatted from a Go error keeps the text in front of the error and the error.
\<close>

datatype diagnostic =
    ErrorDiag string string
  | WarningDiag string string
  | ErrorCause string string go_error

fun is_error :: "diagnostic \<Rightarrow> bool" where
  "is_error (ErrorDiag s d) = True"
| "is_error (WarningDiag s d) = False"
| "is_error (ErrorCause s d e) = True"

fun is_warning :: "diagnostic \<Rightarrow> bool" where
  "is_warning (ErrorDiag s d) = False"
| "is_warning (WarningDiag s d) = True"
| "is_warning (ErrorCause s d e) = False"

definition HasError :: "diagnostic list \<Rightarrow> bool" where
  "HasError ds = list_ex is_error ds"

text \<open>
  Go strings are byte sequences, modelled as \<^typ>\<open>string\<close>. Field names are taken to be
  ASCII: \<^verbatim>\<open>strings.ToLower\<close> maps \<^verbatim>\<open>A\<close>..\<^verbatim>\<open>Z\<close> to \<^verbatim>\<open>a\<close>..\<^verbatim>\<open>z\<close> and leaves every other byte
  alone, and \<^verbatim>\<open>strings.EqualFold\<close> follows the byte loop of its ASCII path.
\<close>

definition is_upper :: "char \<Rightarrow> bool" where
  "is_upper c = (65 \<le> (of_char c :: nat) \<and> (of_char c :: nat) \<le> 90)"

definition lower_char :: "char \<Rightarrow> char" where
  "lower_char c = (if is_upper c then char_of ((of_char c :: nat) + 32) else c)"

definition ToLower :: "string \<Rightarrow> string" where
  "ToLower s = map lower_char s"

fun EqualFold :: "string \<Rightarrow> string \<Rightarrow> bool" where
  "EqualFold [] [] = True"
| "EqualFold (sr # s) (tr # t) =
     (if tr = sr then EqualFold s t
      else (let lo = (if (of_char tr :: nat) < of_char sr then tr else sr);
                hi = (if (of_char tr :: nat) < of_char sr then sr else tr)
            in if is_upper lo \<and> (of_char hi :: nat) = of_char lo + 32 then EqualFold s t
               else False))"
| "EqualFold [] (tr # t) = False"
| "EqualFold (sr # s) [] = False"

fun HasPrefix :: "string \<Rightarrow> string \<Rightarrow> bool" where
  "HasPrefix s [] = True"
| "HasPrefix [] (p # ps) = False"
| "HasPrefix (c # s) (p # ps) = (c = p \<and> HasPrefix s ps)"

fun Contains :: "string \<Rightarrow> string \<Rightarrow> bool" where
  "Contains [] sub = HasPrefix [] sub"
| "Contains (c # s) sub = (HasPrefix (c # s) sub \<or> Contains s sub)"

text \<open>
  \<^verbatim>\<open>strconv.Itoa\<close> and the \<^verbatim>\<open>%d\<close> verb print a decimal numeral, with a minus sign for a
  negative number.
\<close>

definition digit_char :: "nat \<Rightarrow> char" where
  "digit_char d = char_of (48 + d)"

fun digits :: "nat \<Rightarrow> string" where
  "digits n = (if n < 10 then [digit_char n] else digits (n div 10) @ [digit_char (n mod 10)])"

declare digits.simps [simp del]

definition Itoa :: "int \<Rightarrow> string" where
  "Itoa i = (if i < 0 then CHR ''-'' # digits (nat (- i)) else digits (nat i))"

text \<open>
  \<^verbatim>\<open>strconv.Atoi\<close> on a 64-bit platform: an optional sign and at least one decimal digit,
  nothing else. A malformed string gives 0 and a syntax error; a numeral outside the
  range of \<^verbatim>\<open>int\<close> gives the nearest bound and a range error, and the range error is
  raised as soon as the digits read so far overflow.
\<close>

definition is_digit :: "char \<Rightarrow> bool" where
  "is_digit c = (48 \<le> (of_char c :: nat) \<and> (of_char c :: nat) \<le> 57)"

definition maxUint64 :: int where
  "maxUint64 = 18446744073709551615"

fun ParseUint_loop :: "int \<Rightarrow> string \<Rightarrow> int \<times> atoi_error option" where
  "ParseUint_loop n [] = (n, None)"
| "ParseUint_loop n (c # s) =
     (if \<not> is_digit c then (0, Some ErrSyntax)
      else if n \<ge> maxUint64 div 10 + 1 then (maxUint64, Some ErrRange)
      else if n * 10 + (of_char c - 48) > maxUint64 then (maxUint64, Some ErrRange)
      else ParseUint_loop (n * 10 + (of_char c - 48)) s)"

definition ParseUint :: "string \<Rightarrow> int \<times> atoi_error option" where
  "ParseUint s = (if s = [] then (0, Some ErrSyntax) else ParseUint_loop 0 s)"

definition Atoi :: "string \<Rightarrow> int \<times> atoi_error option" where
  "Atoi s0 =
     (if s0 = [] then (0, Some ErrSyntax)
      else
        (let neg = (hd s0 = CHR ''-'');
             s = (if hd s0 = CHR ''+'' \<or> hd s0 = CHR ''-'' then tl s0 else s0)
         in case ParseUint s of
              (un, Some ErrSyntax) \<Rightarrow> (0, Some ErrSyntax)
            | (un, e) \<Rightarrow>
                if \<not> neg \<and> un \<ge> 9223372036854775808 then (9223372036854775807, Some ErrRange)
                else if neg \<and> un > 9223372036854775808 then (- 9223372036854775808, Some ErrRange)
                else (if neg then - un else un, None)))"

section \<open>The remote store client\<close>

text \<open>
  The SDK client is an external collaborator. Its calls are parameters of the model: each
  reads or changes a remote store of some type \<^typ>\<open>'r\<close>, and fails with an error message
  or succeeds. The method \<^verbatim>\<open>Field\<close> of a fetched secret is a parameter too.
\<close>

record ('r, 's) ephemeral_client =
  client_Secret :: "'r \<Rightarrow> int \<Rightarrow> string + 's"
  secret_Field :: "'s \<Rightarrow> string \<Rightarrow> string \<times> bool"

section \<open>The ephemeral resource\<close>

record SecretModel =
  sm_ID :: "int tfval"
  sm_Value :: "string tfval"

record TSSSecretsEphemeralResourceModel =
  IDs :: "int tfval list"
  Field :: "string tfval"
  Secrets :: "SecretModel list"

record TSSSecretsPrivateData =
  pd_IDs :: "int tfval list"
  pd_Field :: string
  pd_Secrets :: "SecretModel list"

text \<open>
  What an operation hands back to the host: its diagnostics, the result it set, the
  renewal time (nanoseconds), the private data stored under the key
  \<^verbatim>\<open>tss_secrets_data\<close>, and the ids it asked the remote store for, in order.
  \<^verbatim>\<open>json.Marshal\<close> and \<^verbatim>\<open>json.Unmarshal\<close> are taken as inverse to each other, so the
  private data is the structure that is marshalled.
\<close>

record OpenResponse =
  open_Diagnostics :: "diagnostic list"
  open_Result :: "TSSSecretsEphemeralResourceModel option"
  open_RenewAt :: "int option"
  open_Private :: "TSSSecretsPrivateData option"
  open_fetched :: "int list"

record RenewResponse =
  renew_Diagnostics :: "diagnostic list"
  renew_RenewAt :: "int option"
  renew_Private :: "TSSSecretsPrivateData option"
  renew_fetched :: "int list"

definition Minute :: int where
  "Minute = 60 * 1000000000"

text \<open>The two diagnostics of the fetch loops, with their formatted details.\<close>

definition fetch_warning :: "int \<Rightarrow> string \<Rightarrow> diagnostic" where
  "fetch_warning secretID err =
     WarningDiag ''Secret Fetch Warning''
       (''Failed to fetch secret with ID '' @ Itoa secretID @ '': '' @ err)"

definition field_not_found :: "string \<Rightarrow> diagnostic" where
  "field_not_found fld =
     ErrorDiag ''Field Not Found'' (''Field '' @ fld @ '' not found in the secret'')"

text \<open>The loop of \<^verbatim>\<open>Open\<close> over \<^verbatim>\<open>data.IDs\<close>, with the diagnostics, results and fetches so far.\<close>

fun Open_loop :: "('r, 's) ephemeral_client \<Rightarrow> 'r \<Rightarrow> string \<Rightarrow> int tfval list \<Rightarrow>
    diagnostic list \<times> SecretModel list \<times> int list \<Rightarrow> diagnostic list \<times> SecretModel list \<times> int list" where
  "Open_loop c r fld [] acc = acc"
| "Open_loop c r fld (i # ids) (ds, results, fetched) =
     (let secretID = ValueInt64 i in
      case client_Secret c r secretID of
        Inl err \<Rightarrow>
          Open_loop c r fld ids
            (ds @ [fetch_warning secretID err],
             results, fetched @ [secretID])
      | Inr secret \<Rightarrow>
          (case secret_Field c secret fld of
             (fieldValue, False) \<Rightarrow>
               Open_loop c r fld ids
                 (ds @ [field_not_found fld],
                  results, fetched @ [secretID])
           | (fieldValue, True) \<Rightarrow>
               Open_loop c r fld ids
                 (ds, results @ [\<lparr>sm_ID = Known secretID, sm_Value = Known fieldValue\<rparr>],
                  fetched @ [secretID])))"

text \<open>
  \<^verbatim>\<open>Open\<close>. The arguments are the client (absent when the provider is not configured), the
  remote store, the current time, and what \<^verbatim>\<open>req.Config.Get\<close> gave: its diagnostics and
  the decoded configuration.
\<close>

definition Open :: "('r, 's) ephemeral_client option \<Rightarrow> 'r \<Rightarrow> int \<Rightarrow>
    diagnostic list \<times> TSSSecretsEphemeralResourceModel \<Rightarrow> OpenResponse" where
  "Open client r now cfg =
     (case cfg of (getDiags, data) \<Rightarrow>
      if HasError getDiags then
        \<lparr>open_Diagnostics = getDiags, open_Result = None, open_RenewAt = None,
         open_Private = None, open_fetched = []\<rparr>
      else case client of
        None \<Rightarrow>
          \<lparr>open_Diagnostics = getDiags @ [ErrorDiag ''Provider not configured''
              ''Cannot fetch secrets because the provider is not configured.''],
           open_Result = None, open_RenewAt = None, open_Private = None, open_fetched = []\<rparr>
      | Some c \<Rightarrow>
          if length (IDs data) = 0 \<or> IsNull (Field data) then
            \<lparr>open_Diagnostics = getDiags @ [ErrorDiag ''Missing Required Field''
                ''Both secret_ids and field are required''],
             open_Result = None, open_RenewAt = None, open_Private = None, open_fetched = []\<rparr>
          else
            (case Open_loop c r (ValueString (Field data)) (IDs data) (getDiags, [], []) of
               (ds, results, fetched) \<Rightarrow>
                 (let data' = data\<lparr>Secrets := results\<rparr> in
                  \<lparr>open_Diagnostics = ds,
                   open_Result = Some data',
                   open_RenewAt = Some (now + 5 * Minute),
                   open_Private = Some \<lparr>pd_IDs = IDs data', pd_Field = ValueString (Field data'),
                                         pd_Secrets = Secrets data'\<rparr>,
                   open_fetched = fetched\<rparr>)))"

text \<open>
  What \<^verbatim>\<open>Renew\<close> finds under the private key: nothing, bytes that do not decode, or the
  structure stored by the last \<^verbatim>\<open>Open\<close> or \<^verbatim>\<open>Renew\<close>.
\<close>

datatype private_bytes = NoKey | Malformed | Stored TSSSecretsPrivateData

fun Renew_loop :: "('r, 's) ephemeral_client \<Rightarrow> 'r \<Rightarrow> string \<Rightarrow> int tfval list \<Rightarrow>
    diagnostic list \<times> SecretModel list \<times> int list \<Rightarrow> diagnostic list \<times> SecretModel list \<times> int list" where
  "Renew_loop c r fld [] acc = acc"
| "Renew_loop c r fld (i # ids) (ds, results, fetched) =
     (let secretID = ValueInt64 i in
      case client_Secret c r secretID of
        Inl err \<Rightarrow>
          Renew_loop c r fld ids
            (ds @ [fetch_warning secretID err],
             results, fetched @ [secretID])
      | Inr secret \<Rightarrow>
          (case secret_Field c secret fld of
             (fieldValue, False) \<Rightarrow>
               Renew_loop c r fld ids
                 (ds @ [field_not_found fld],
                  results, fetched @ [secretID])
           | (fieldValue, True) \<Rightarrow>
               Renew_loop c r fld ids
                 (ds, results @ [\<lparr>sm_ID = Known secretID, sm_Value = Known fieldValue\<rparr>],
                  fetched @ [secretID])))"

text \<open>
  \<^verbatim>\<open>Renew\<close> does not test the client before its loop: with no client the first fetch
  dereferences nil and the operation panics, which is the value \<open>None\<close>.
\<close>

definition Renew :: "('r, 's) ephemeral_client option \<Rightarrow> 'r \<Rightarrow> int \<Rightarrow> private_bytes \<Rightarrow>
    RenewResponse option" where
  "Renew client r now private =
     (case private of
        NoKey \<Rightarrow>
          Some \<lparr>renew_Diagnostics = [ErrorDiag ''Missing Private Data''
                  ''Private data was not found for renewal.''],
                renew_RenewAt = None, renew_Private = None, renew_fetched = []\<rparr>
      | Malformed \<Rightarrow>
          Some \<lparr>renew_Diagnostics = [ErrorDiag ''Invalid Private Data''
                  ''Failed to unmarshal private data.''],
                renew_RenewAt = None, renew_Private = None, renew_fetched = []\<rparr>
      | Stored privateData \<Rightarrow>
          if length (pd_IDs privateData) = 0 \<or> pd_Field privateData = [] then
            Some \<lparr>renew_Diagnostics = [ErrorDiag ''Missing Private Data Fields''
                    ''Secret ID and field are required.''],
                  renew_RenewAt = None, renew_Private = None, renew_fetched = []\<rparr>
          else
            (case client of
               None \<Rightarrow> None
             | Some c \<Rightarrow>
                 (case Renew_loop c r (pd_Field privateData) (pd_IDs privateData) ([], [], []) of
                    (ds, results, fetched) \<Rightarrow>
                      Some \<lparr>renew_Diagnostics = ds,
                            renew_RenewAt = Some (now + 5 * Minute),
                            renew_Private = Some (privateData\<lparr>pd_Secrets := results\<rparr>),
                            renew_fetched = fetched\<rparr>)))"

subsection \<open>What the fetch loop does with one id\<close>





text \<open>A store that holds one secret, number 1, whose only field is \<^verbatim>\<open>password\<close>.\<close>

definition example_client :: "(unit, string) ephemeral_client" where
  "example_client =
     \<lparr>client_Secret = (\<lambda>r i. if i = 1 then Inr ''hunter2'' else Inl ''not found''),
      secret_Field = (\<lambda>s f. if f = ''password'' then (s, True) else ([], False))\<rparr>"

definition example_config :: TSSSecretsEphemeralResourceModel where
  "example_config = \<lparr>IDs = [Known 1, Known 2], Field = Known ''password'', Secrets = []\<rparr>"

section \<open>The secret resource: data\<close>

text \<open>
  The state of the resource as the host stores it, field by field as in
  \<^verbatim>\<open>SecretResourceState\<close>, \<^verbatim>\<open>SecretField\<close> and \<^verbatim>\<open>SshKeyArgs\<close>.
\<close>

record SecretField =
  FieldName :: "string tfval"
  ItemValue :: "string tfval"
  ItemID :: "int tfval"
  FieldID :: "int tfval"
  FileAttachmentID :: "int tfval"
  Slug :: "string tfval"
  FieldDescription :: "string tfval"
  Filename :: "string tfval"
  IsFile :: "bool tfval"
  IsNotes :: "bool tfval"
  IsPassword :: "bool tfval"
  IsList :: "bool tfval"
  ListType :: "string tfval"

record SshKeyArgs =
  GeneratePassphrase :: "bool tfval"
  GenerateSshKeys :: "bool tfval"

record SecretResourceState =
  ID :: "string tfval"
  Name :: "string tfval"
  FolderID :: "string tfval"
  SiteID :: "string tfval"
  SecretTemplateID :: "string tfval"
  Fields :: "SecretField list"
  SshKeyArgs :: "SshKeyArgs option"
  Active :: "bool tfval"
  SecretPolicyID :: "int tfval"
  PasswordTypeWebScriptID :: "int tfval"
  LauncherConnectAsSecretID :: "int tfval"
  CheckOutIntervalMinutes :: "int tfval"
  CheckedOut :: "bool tfval"
  CheckOutEnabled :: "bool tfval"
  AutoChangeEnabled :: "bool tfval"
  CheckOutChangePasswordEnabled :: "bool tfval"
  DelayIndexing :: "bool tfval"
  EnableInheritPermissions :: "bool tfval"
  EnableInheritSecretPolicy :: "bool tfval"
  ProxyEnabled :: "bool tfval"
  RequiresComment :: "bool tfval"
  SessionRecordingEnabled :: "bool tfval"
  WebLauncherRequiresIncognitoMode :: "bool tfval"

text \<open>
  The SDK's structures \<^verbatim>\<open>server.SecretField\<close>, \<^verbatim>\<open>server.SshKeyArgs\<close>, \<^verbatim>\<open>server.Secret\<close>,
  \<^verbatim>\<open>server.SecretTemplateField\<close> and \<^verbatim>\<open>server.SecretTemplate\<close>, with the fields that the
  provider reads or writes. Their selectors carry a prefix, since the state above uses the
  same names.
\<close>

record server_SecretField =
  srvf_ItemID :: int
  srvf_FieldID :: int
  srvf_FileAttachmentID :: int
  srvf_FieldName :: string
  srvf_Slug :: string
  srvf_FieldDescription :: string
  srvf_Filename :: string
  srvf_ItemValue :: string
  srvf_IsFile :: bool
  srvf_IsNotes :: bool
  srvf_IsPassword :: bool

record server_SshKeyArgs =
  srv_GeneratePassphrase :: bool
  srv_GenerateSshKeys :: bool

record server_Secret =
  srv_Name :: string
  srv_FolderID :: int
  srv_ID :: int
  srv_SiteID :: int
  srv_SecretTemplateID :: int
  srv_Fields :: "server_SecretField list"
  srv_SshKeyArgs :: "server_SshKeyArgs option"
  srv_Active :: bool
  srv_SecretPolicyID :: int
  srv_PasswordTypeWebScriptID :: int
  srv_LauncherConnectAsSecretID :: int
  srv_CheckOutIntervalMinutes :: int
  srv_CheckedOut :: bool
  srv_CheckOutEnabled :: bool
  srv_AutoChangeEnabled :: bool
  srv_CheckOutChangePasswordEnabled :: bool
  srv_DelayIndexing :: bool
  srv_EnableInheritPermissions :: bool
  srv_EnableInheritSecretPolicy :: bool
  srv_ProxyEnabled :: bool
  srv_RequiresComment :: bool
  srv_SessionRecordingEnabled :: bool
  srv_WebLauncherRequiresIncognitoMode :: bool

record server_SecretTemplateField =
  tf_SecretTemplateFieldID :: int
  tf_Name :: string
  tf_FieldSlugName :: string
  tf_Description :: string
  tf_IsFile :: bool
  tf_IsNotes :: bool
  tf_IsPassword :: bool

record server_SecretTemplate =
  tmpl_Fields :: "server_SecretTemplateField list"

text \<open>
  The calls of the client on a remote store of type \<^typ>\<open>'r\<close>. Reading calls return an error
  text or a value; the others return the store they leave behind as well. Every operation
  of the resource also reports the calls it made, in order.
\<close>

record 'r client =
  SecretTemplate :: "'r \<Rightarrow> int \<Rightarrow> string + server_SecretTemplate"
  GeneratePassword :: "'r \<Rightarrow> string \<Rightarrow> server_SecretTemplate \<Rightarrow> (string + string) \<times> 'r"
  CreateSecret :: "'r \<Rightarrow> server_Secret \<Rightarrow> (string + server_Secret) \<times> 'r"
  Secret :: "'r \<Rightarrow> int \<Rightarrow> string + server_Secret"
  UpdateSecret :: "'r \<Rightarrow> server_Secret \<Rightarrow> (string + server_Secret) \<times> 'r"
  DeleteSecret :: "'r \<Rightarrow> int \<Rightarrow> string option \<times> 'r"

datatype remote_call =
    CallSecretTemplate int
  | CallGeneratePassword string
  | CallCreateSecret server_Secret
  | CallSecret int
  | CallUpdateSecret server_Secret
  | CallDeleteSecret int


section \<open>The secret resource: building the secret to submit\<close>

text \<open>
  The inner loop of \<^verbatim>\<open>getSecretData\<close> that looks a declared field up in the template: the
  first template field, in the template's order, whose name or slug equals the field name
  up to case.
\<close>

fun lookupTemplateField ::
    "server_SecretTemplateField list \<Rightarrow> string \<Rightarrow> server_SecretTemplateField option" where
  "lookupTemplateField [] fieldName = None"
| "lookupTemplateField (rec # rest) fieldName =
     (if EqualFold (tf_Name rec) fieldName \<or> EqualFold (tf_FieldSlugName rec) fieldName
      then Some rec
      else lookupTemplateField rest fieldName)"

text \<open>The field object that \<^verbatim>\<open>getSecretData\<close> populates from a declared field and its template field.\<close>

definition populateField :: "server_SecretTemplateField \<Rightarrow> SecretField \<Rightarrow> server_SecretField" where
  "populateField templateField field =
     (let itemValue = (if IsNull (ItemValue field) then [] else ValueString (ItemValue field));
          secretField =
            \<lparr>srvf_ItemID = 0,
             srvf_FieldID = tf_SecretTemplateFieldID templateField,
             srvf_FileAttachmentID = 0,
             srvf_FieldName = tf_Name templateField,
             srvf_Slug = tf_FieldSlugName templateField,
             srvf_FieldDescription = tf_Description templateField,
             srvf_Filename = [],
             srvf_ItemValue = itemValue,
             srvf_IsFile = tf_IsFile templateField,
             srvf_IsNotes = tf_IsNotes templateField,
             srvf_IsPassword = tf_IsPassword templateField\<rparr>
      in if tf_IsFile templateField \<or> (\<not> IsNull (IsFile field) \<and> ValueBool (IsFile field)) then
           (let withId = (if \<not> IsNull (FileAttachmentID field)
                          then secretField\<lparr>srvf_FileAttachmentID := ValueInt64 (FileAttachmentID field)\<rparr>
                          else secretField)
            in if \<not> IsNull (Filename field)
               then withId\<lparr>srvf_Filename := ValueString (Filename field)\<rparr>
               else withId)
         else secretField)"

fun constructFields ::
    "server_SecretTemplate \<Rightarrow> SecretField list \<Rightarrow> go_error + server_SecretField list" where
  "constructFields template [] = Inr []"
| "constructFields template (field # rest) =
     (case lookupTemplateField (tmpl_Fields template) (ValueString (FieldName field)) of
        None \<Rightarrow> Inl (FieldNotInTemplate (ValueString (FieldName field)))
      | Some templateField \<Rightarrow>
          (case constructFields template rest of
             Inl e \<Rightarrow> Inl e
           | Inr flds \<Rightarrow> Inr (populateField templateField field # flds)))"

definition optInt :: "int tfval \<Rightarrow> int" where
  "optInt v = (if \<not> IsNull v then ValueInt64 v else 0)"

definition optBool :: "bool tfval \<Rightarrow> bool" where
  "optBool v = (if \<not> IsNull v then ValueBool v else False)"

definition populateSecret ::
    "SecretResourceState \<Rightarrow> int \<Rightarrow> int \<Rightarrow> int \<Rightarrow> server_SecretField list \<Rightarrow> server_Secret" where
  "populateSecret state folderID siteID templateID flds =
     \<lparr>srv_Name = ValueString (Name state),
      srv_FolderID = folderID,
      srv_ID = 0,
      srv_SiteID = siteID,
      srv_SecretTemplateID = templateID,
      srv_Fields = flds,
      srv_SshKeyArgs =
        (case SshKeyArgs state of
           None \<Rightarrow> None
         | Some a \<Rightarrow> Some \<lparr>srv_GeneratePassphrase = ValueBool (GeneratePassphrase a),
                             srv_GenerateSshKeys = ValueBool (GenerateSshKeys a)\<rparr>),
      srv_Active = ValueBool (Active state),
      srv_SecretPolicyID = optInt (SecretPolicyID state),
      srv_PasswordTypeWebScriptID = optInt (PasswordTypeWebScriptID state),
      srv_LauncherConnectAsSecretID = optInt (LauncherConnectAsSecretID state),
      srv_CheckOutIntervalMinutes = optInt (CheckOutIntervalMinutes state),
      srv_CheckedOut = optBool (CheckedOut state),
      srv_CheckOutEnabled = optBool (CheckOutEnabled state),
      srv_AutoChangeEnabled = optBool (AutoChangeEnabled state),
      srv_CheckOutChangePasswordEnabled = optBool (CheckOutChangePasswordEnabled state),
      srv_DelayIndexing = optBool (DelayIndexing state),
      srv_EnableInheritPermissions = optBool (EnableInheritPermissions state),
      srv_EnableInheritSecretPolicy = optBool (EnableInheritSecretPolicy state),
      srv_ProxyEnabled = optBool (ProxyEnabled state),
      srv_RequiresComment = optBool (RequiresComment state),
      srv_SessionRecordingEnabled = optBool (SessionRecordingEnabled state),
      srv_WebLauncherRequiresIncognitoMode = optBool (WebLauncherRequiresIncognitoMode state)\<rparr>"

text \<open>
  \<^verbatim>\<open>getSecretData\<close>: the three identifiers are parsed first, then the template is fetched,
  then the fields are built. The result comes with the remote calls made.
\<close>

definition getSecretData ::
    "'r client \<Rightarrow> 'r \<Rightarrow> SecretResourceState \<Rightarrow> (go_error + server_Secret) \<times> remote_call list" where
  "getSecretData c r state =
     (case Atoi (ValueString (FolderID state)) of
        (folderID, Some e) \<Rightarrow>
          (Inl (Errorf ''invalid Folder ID'' (AtoiError (ValueString (FolderID state)) e)), [])
      | (folderID, None) \<Rightarrow>
     (case Atoi (ValueString (SiteID state)) of
        (siteID, Some e) \<Rightarrow>
          (Inl (Errorf ''invalid Site ID'' (AtoiError (ValueString (SiteID state)) e)), [])
      | (siteID, None) \<Rightarrow>
     (case Atoi (ValueString (SecretTemplateID state)) of
        (templateID, Some e) \<Rightarrow>
          (Inl (Errorf ''invalid Template ID'' (AtoiError (ValueString (SecretTemplateID state)) e)), [])
      | (templateID, None) \<Rightarrow>
     (case SecretTemplate c r templateID of
        Inl err \<Rightarrow>
          (Inl (Errorf ''failed to retrieve secret template'' (ClientError err)),
           [CallSecretTemplate templateID])
      | Inr template \<Rightarrow>
          (case constructFields template (Fields state) of
             Inl e \<Rightarrow> (Inl e, [CallSecretTemplate templateID])
           | Inr flds \<Rightarrow>
               (Inr (populateSecret state folderID siteID templateID flds),
                [CallSecretTemplate templateID]))))))"

text \<open>
  The inner loop of \<^verbatim>\<open>generatePassword\<close> that binds a field of the secret to a template
  field: the first template field, in the template's order, that has the field's id (when
  that id is positive), or whose name or slug equals the field name up to case.
\<close>

fun bindTemplateField ::
    "server_SecretTemplateField list \<Rightarrow> server_SecretField \<Rightarrow> server_SecretTemplateField option" where
  "bindTemplateField [] field = None"
| "bindTemplateField (tf # rest) field =
     (if (srvf_FieldID field > 0 \<and> tf_SecretTemplateFieldID tf = srvf_FieldID field)
         \<or> EqualFold (tf_Name tf) (srvf_FieldName field)
         \<or> EqualFold (tf_FieldSlugName tf) (srvf_FieldName field)
      then Some tf
      else bindTemplateField rest field)"

text \<open>
  The outer loop of \<^verbatim>\<open>generatePassword\<close>: a password field whose value is empty gets a
  generated one; a failed generation ends the loop with an error.
\<close>

fun generateFields ::
    "'r client \<Rightarrow> server_SecretTemplate \<Rightarrow> server_SecretField list \<Rightarrow> 'r \<Rightarrow>
     (go_error + server_SecretField list) \<times> 'r \<times> remote_call list" where
  "generateFields c template [] r = (Inr [], r, [])"
| "generateFields c template (field # rest) r =
     (case bindTemplateField (tmpl_Fields template) field of
        None \<Rightarrow>
          (case generateFields c template rest r of
             (Inl e, r', calls) \<Rightarrow> (Inl e, r', calls)
           | (Inr flds, r', calls) \<Rightarrow> (Inr (field # flds), r', calls))
      | Some templateField \<Rightarrow>
          if tf_IsPassword templateField \<and> srvf_ItemValue field = [] then
            (case GeneratePassword c r (tf_FieldSlugName templateField) template of
               (Inl err, r1) \<Rightarrow>
                 (Inl (Errorf (''failed to generate password for field '' @ srvf_FieldName field)
                        (ClientError err)),
                  r1, [CallGeneratePassword (tf_FieldSlugName templateField)])
             | (Inr generatedPassword, r1) \<Rightarrow>
                 (case generateFields c template rest r1 of
                    (Inl e, r', calls) \<Rightarrow>
                      (Inl e, r', CallGeneratePassword (tf_FieldSlugName templateField) # calls)
                  | (Inr flds, r', calls) \<Rightarrow>
                      (Inr (field\<lparr>srvf_ItemValue := generatedPassword\<rparr> # flds), r',
                       CallGeneratePassword (tf_FieldSlugName templateField) # calls)))
          else
            (case generateFields c template rest r of
               (Inl e, r', calls) \<Rightarrow> (Inl e, r', calls)
             | (Inr flds, r', calls) \<Rightarrow> (Inr (field # flds), r', calls)))"

definition generatePassword ::
    "'r client \<Rightarrow> 'r \<Rightarrow> SecretResourceState \<Rightarrow> (go_error + server_Secret) \<times> 'r \<times> remote_call list" where
  "generatePassword c r state =
     (case getSecretData c r state of
        (Inl e, calls) \<Rightarrow> (Inl e, r, calls)
      | (Inr secret, calls) \<Rightarrow>
     (case Atoi (ValueString (SecretTemplateID state)) of
        (templateID, Some e) \<Rightarrow>
          (Inl (Errorf ''invalid Template ID'' (AtoiError (ValueString (SecretTemplateID state)) e)),
           r, calls)
      | (templateID, None) \<Rightarrow>
     (case SecretTemplate c r templateID of
        Inl err \<Rightarrow>
          (Inl (Errorf ''failed to retrieve secret template'' (ClientError err)), r,
           calls @ [CallSecretTemplate templateID])
      | Inr template \<Rightarrow>
          (case generateFields c template (srv_Fields secret) r of
             (Inl e, r', gcalls) \<Rightarrow> (Inl e, r', calls @ CallSecretTemplate templateID # gcalls)
           | (Inr flds, r', gcalls) \<Rightarrow>
               (Inr (secret\<lparr>srv_Fields := flds\<rparr>), r',
                calls @ CallSecretTemplate templateID # gcalls)))))"

section \<open>The secret resource: reading the remote secret back\<close>

definition isSSHKeyName :: "string \<Rightarrow> bool" where
  "isSSHKeyName fieldName =
     (Contains (ToLower fieldName) ''key'' \<or> Contains (ToLower fieldName) ''passphrase'')"

definition flattenField :: "server_SecretField \<Rightarrow> SecretField" where
  "flattenField f =
     (let itemValue = Known (srvf_ItemValue f);
          field =
            \<lparr>FieldName = Known (srvf_FieldName f),
             ItemValue = itemValue,
             ItemID = Known (srvf_ItemID f),
             FieldID = Known (srvf_FieldID f),
             FileAttachmentID = Known (srvf_FileAttachmentID f),
             Slug = Known (srvf_Slug f),
             FieldDescription = Known (srvf_FieldDescription f),
             Filename = Known (srvf_Filename f),
             IsFile = Known (srvf_IsFile f),
             IsNotes = Known (srvf_IsNotes f),
             IsPassword = Known (srvf_IsPassword f),
             IsList = Null,
             ListType = Null\<rparr>;
          field1 =
            (if srvf_IsFile f then
               (let g = field\<lparr>FileAttachmentID := Known (srvf_FileAttachmentID f)\<rparr>
                in if srvf_Filename f \<noteq> [] then g\<lparr>Filename := Known (srvf_Filename f)\<rparr> else g)
             else field)
      in if isSSHKeyName (srvf_FieldName f) \<and> srvf_Filename f \<noteq> []
         then field1\<lparr>Filename := Known (srvf_Filename f)\<rparr>
         else field1)"

text \<open>\<^verbatim>\<open>flattenSecret\<close> never returns an error, so the model returns the state alone.\<close>

definition flattenSecret :: "server_Secret \<Rightarrow> SecretResourceState" where
  "flattenSecret secret =
     \<lparr>ID = Known (Itoa (srv_ID secret)),
      Name = Known (srv_Name secret),
      FolderID = Known (Itoa (srv_FolderID secret)),
      SiteID = Known (Itoa (srv_SiteID secret)),
      SecretTemplateID = Known (Itoa (srv_SecretTemplateID secret)),
      Fields = map flattenField (srv_Fields secret),
      SshKeyArgs =
        (case srv_SshKeyArgs secret of
           None \<Rightarrow> None
         | Some a \<Rightarrow> Some \<lparr>GeneratePassphrase = Known (srv_GeneratePassphrase a),
                             GenerateSshKeys = Known (srv_GenerateSshKeys a)\<rparr>),
      Active = Known (srv_Active secret),
      SecretPolicyID =
        (if srv_SecretPolicyID secret \<noteq> 0 then Known (srv_SecretPolicyID secret) else Null),
      PasswordTypeWebScriptID =
        (if srv_PasswordTypeWebScriptID secret \<noteq> 0
         then Known (srv_PasswordTypeWebScriptID secret) else Null),
      LauncherConnectAsSecretID =
        (if srv_LauncherConnectAsSecretID secret \<noteq> 0
         then Known (srv_LauncherConnectAsSecretID secret) else Null),
      CheckOutIntervalMinutes =
        (if srv_CheckOutIntervalMinutes secret \<noteq> 0
         then Known (srv_CheckOutIntervalMinutes secret) else Null),
      CheckedOut = Known (srv_CheckedOut secret),
      CheckOutEnabled = Known (srv_CheckOutEnabled secret),
      AutoChangeEnabled = Known (srv_AutoChangeEnabled secret),
      CheckOutChangePasswordEnabled = Known (srv_CheckOutChangePasswordEnabled secret),
      DelayIndexing = Known (srv_DelayIndexing secret),
      EnableInheritPermissions = Known (srv_EnableInheritPermissions secret),
      EnableInheritSecretPolicy = Known (srv_EnableInheritSecretPolicy secret),
      ProxyEnabled = Known (srv_ProxyEnabled secret),
      RequiresComment = Known (srv_RequiresComment secret),
      SessionRecordingEnabled = Known (srv_SessionRecordingEnabled secret),
      WebLauncherRequiresIncognitoMode = Known (srv_WebLauncherRequiresIncognitoMode secret)\<rparr>"

definition readSecretByID ::
    "'r client \<Rightarrow> 'r \<Rightarrow> string \<Rightarrow> (diagnostic list + SecretResourceState) \<times> remote_call list" where
  "readSecretByID c r id_str =
     (case Atoi id_str of
        (secretID, Some e) \<Rightarrow>
          (Inl [ErrorCause ''Secret Conversion Error'' ''invalid secret ID: '' (AtoiError id_str e)], [])
      | (secretID, None) \<Rightarrow>
          (case Secret c r secretID of
             Inl err \<Rightarrow>
               (Inl [ErrorCause ''Secret Retrieval Error'' ''Failed to retrieve secret: ''
                       (ClientError err)],
                [CallSecret secretID])
           | Inr secret \<Rightarrow> (Inr (flattenSecret secret), [CallSecret secretID])))"

section \<open>The secret resource: reordering the flds read back\<close>

text \<open>
  \<^verbatim>\<open>reorderFieldsToMatchPlan\<close>: a map from lower-cased name to state field (a later field
  replaces an earlier one with the same key), the walk over the plan, and the loop that
  appends the state fields whose name is not yet in the result.
\<close>

fun indexFields :: "SecretField list \<Rightarrow> (string \<rightharpoonup> SecretField) \<Rightarrow> (string \<rightharpoonup> SecretField)" where
  "indexFields [] m = m"
| "indexFields (field # rest) m =
     indexFields rest (m(ToLower (ValueString (FieldName field)) \<mapsto> field))"

fun walkPlan :: "(string \<rightharpoonup> SecretField) \<Rightarrow> SecretField list \<Rightarrow> SecretField list \<Rightarrow> SecretField list" where
  "walkPlan stateFieldMap [] reorderedFields = reorderedFields"
| "walkPlan stateFieldMap (planField # rest) reorderedFields =
     (case stateFieldMap (ToLower (ValueString (FieldName planField))) of
        Some stateField \<Rightarrow> walkPlan stateFieldMap rest (reorderedFields @ [stateField])
      | None \<Rightarrow> walkPlan stateFieldMap rest reorderedFields)"

fun nameFound :: "SecretField \<Rightarrow> SecretField list \<Rightarrow> bool" where
  "nameFound stateField [] = False"
| "nameFound stateField (reorderedField # rest) =
     (if EqualFold (ValueString (FieldName stateField)) (ValueString (FieldName reorderedField))
      then True
      else nameFound stateField rest)"

fun appendMissing :: "SecretField list \<Rightarrow> SecretField list \<Rightarrow> SecretField list" where
  "appendMissing [] reorderedFields = reorderedFields"
| "appendMissing (stateField # rest) reorderedFields =
     (if nameFound stateField reorderedFields
      then appendMissing rest reorderedFields
      else appendMissing rest (reorderedFields @ [stateField]))"

definition reorderFieldsToMatchPlan :: "SecretField list \<Rightarrow> SecretField list \<Rightarrow> SecretField list" where
  "reorderFieldsToMatchPlan planFields stateFields =
     appendMissing stateFields (walkPlan (indexFields stateFields Map.empty) planFields [])"


section \<open>The secret resource: lifecycle operations\<close>

text \<open>
  What an operation of the resource hands back: its diagnostics and the state it set, if it
  set one. Each operation also returns the remote store it leaves behind and the remote
  calls it made, in order. The diagnostics of decoding the request are an argument.
\<close>

record ResourceResponse =
  Diagnostics :: "diagnostic list"
  State :: "SecretResourceState option"

definition hasSshKeyArgs :: "SecretResourceState \<Rightarrow> bool" where
  "hasSshKeyArgs state =
     (case SshKeyArgs state of
        None \<Rightarrow> False
      | Some a \<Rightarrow> ValueBool (GenerateSshKeys a) \<or> ValueBool (GeneratePassphrase a))"

text \<open>The first field of a list whose name equals the given one, up to case or exactly.\<close>

fun findFieldFold :: "SecretField list \<Rightarrow> string \<Rightarrow> SecretField option" where
  "findFieldFold [] fieldName = None"
| "findFieldFold (f # rest) fieldName =
     (if EqualFold (ValueString (FieldName f)) fieldName then Some f
      else findFieldFold rest fieldName)"

fun findFieldExact :: "SecretField list \<Rightarrow> string \<Rightarrow> SecretField option" where
  "findFieldExact [] fieldName = None"
| "findFieldExact (f # rest) fieldName =
     (if ValueString (FieldName f) = fieldName then Some f
      else findFieldExact rest fieldName)"

text \<open>
  The body of the loop of \<^verbatim>\<open>Update\<close> over the fields to submit: for an SSH key field or a
  field that the state flags as a password, the value of the state is kept when the plan
  has no value for the field or does not name it.
\<close>

definition preserveStateValue ::
    "bool \<Rightarrow> SecretField list \<Rightarrow> SecretField list \<Rightarrow> server_SecretField \<Rightarrow> server_SecretField" where
  "preserveStateValue sshArgs stateFields planFields field =
     (let fieldName = srvf_FieldName field;
          isSSHKeyField = (sshArgs \<and> isSSHKeyName fieldName);
          isPasswordField =
            (case findFieldFold stateFields fieldName of
               None \<Rightarrow> False
             | Some stateField \<Rightarrow>
                 \<not> IsNull (IsPassword stateField) \<and> ValueBool (IsPassword stateField))
      in if isSSHKeyField \<or> isPasswordField then
           (case findFieldFold stateFields fieldName of
              None \<Rightarrow> field
            | Some stateField \<Rightarrow>
                (let valued =
                       (case findFieldFold planFields fieldName of
                          Some planField \<Rightarrow>
                            if IsNull (ItemValue planField) \<or> ValueString (ItemValue planField) = []
                            then field\<lparr>srvf_ItemValue := ValueString (ItemValue stateField)\<rparr>
                            else field
                        | None \<Rightarrow> field\<lparr>srvf_ItemValue := ValueString (ItemValue stateField)\<rparr>)
                 in if \<not> IsNull (Filename stateField) \<and> ValueString (Filename stateField) \<noteq> []
                    then valued\<lparr>srvf_Filename := ValueString (Filename stateField)\<rparr>
                    else valued))
         else field)"

text \<open>The attachment of a state field carried over to a field read back (\<^verbatim>\<open>Read\<close>, \<^verbatim>\<open>Update\<close>).\<close>

definition attachmentFrom :: "SecretField \<Rightarrow> SecretField \<Rightarrow> SecretField" where
  "attachmentFrom oldField field =
     (let g = (if \<not> IsNull (FileAttachmentID oldField)
               then field\<lparr>FileAttachmentID := FileAttachmentID oldField\<rparr>
               else field)
      in if \<not> IsNull (Filename oldField) \<and> ValueString (Filename oldField) \<noteq> []
         then g\<lparr>Filename := Filename oldField\<rparr>
         else g)"

definition preserveAttachmentRead :: "bool \<Rightarrow> SecretField list \<Rightarrow> SecretField \<Rightarrow> SecretField" where
  "preserveAttachmentRead sshArgs stateFields field =
     (let fieldName = ValueString (FieldName field);
          isSSHKeyField = (sshArgs \<and> isSSHKeyName fieldName)
      in if ValueBool (IsFile field) \<or> isSSHKeyField then
           (case findFieldExact stateFields fieldName of
              None \<Rightarrow> field
            | Some oldField \<Rightarrow> attachmentFrom oldField field)
         else field)"

definition preserveAttachmentUpdate ::
    "bool \<Rightarrow> SecretField list \<Rightarrow> SecretField list \<Rightarrow> SecretField \<Rightarrow> SecretField" where
  "preserveAttachmentUpdate sshArgs stateFields planFields field =
     (let fieldName = ValueString (FieldName field);
          isSSHKeyField = (sshArgs \<and> isSSHKeyName fieldName)
      in if ValueBool (IsFile field) \<or> isSSHKeyField then
           (let fromState =
                  (case findFieldExact stateFields fieldName of
                     None \<Rightarrow> field
                   | Some stateField \<Rightarrow> attachmentFrom stateField field)
            in if IsNull (Filename fromState) \<or> ValueString (Filename fromState) = [] then
                 (case findFieldExact planFields fieldName of
                    None \<Rightarrow> fromState
                  | Some planField \<Rightarrow>
                      if \<not> IsNull (Filename planField) \<and> ValueString (Filename planField) \<noteq> []
                      then fromState\<lparr>Filename := Filename planField\<rparr>
                      else fromState)
               else fromState)
         else field)"

fun findPlanFile :: "SecretField list \<Rightarrow> string \<Rightarrow> SecretField option" where
  "findPlanFile [] fieldName = None"
| "findPlanFile (planField # rest) fieldName =
     (if ValueString (FieldName planField) = fieldName \<and> ValueBool (IsFile planField)
      then Some planField
      else findPlanFile rest fieldName)"

definition preserveAttachmentCreate :: "SecretField list \<Rightarrow> SecretField \<Rightarrow> SecretField" where
  "preserveAttachmentCreate planFields field =
     (if ValueBool (IsFile field) then
        (case findPlanFile planFields (ValueString (FieldName field)) of
           None \<Rightarrow> field
         | Some planField \<Rightarrow>
             field\<lparr>FileAttachmentID := FileAttachmentID planField, Filename := Filename planField\<rparr>)
      else field)"

definition client_not_configured :: diagnostic where
  "client_not_configured = ErrorDiag ''Client Error'' ''The server client is not configured''"

definition Create ::
    "'r client option \<Rightarrow> 'r \<Rightarrow> diagnostic list \<Rightarrow> SecretResourceState \<Rightarrow>
     ResourceResponse \<times> 'r \<times> remote_call list" where
  "Create client r getDiags plan =
     (if HasError getDiags then (\<lparr>Diagnostics = getDiags, State = None\<rparr>, r, [])
      else case client of
        None \<Rightarrow> (\<lparr>Diagnostics = getDiags @ [client_not_configured], State = None\<rparr>, r, [])
      | Some c \<Rightarrow>
     (case generatePassword c r plan of
        (Inl err, r1, calls) \<Rightarrow>
          (\<lparr>Diagnostics = getDiags @ [ErrorCause ''Secret Data Error''
               ''Failed to prepare secret data: '' err], State = None\<rparr>, r1, calls)
      | (Inr newSecret, r1, calls) \<Rightarrow>
     (case CreateSecret c r1 newSecret of
        (Inl err, r2) \<Rightarrow>
          (\<lparr>Diagnostics = getDiags @ [ErrorCause ''Secret Creation Error''
               ''Failed to create secret: '' (ClientError err)], State = None\<rparr>,
           r2, calls @ [CallCreateSecret newSecret])
      | (Inr createdSecret, r2) \<Rightarrow>
     (case readSecretByID c r2 (Itoa (srv_ID createdSecret)) of
        (Inl readDiags, rcalls) \<Rightarrow>
          (\<lparr>Diagnostics = getDiags @ readDiags, State = None\<rparr>,
           r2, calls @ CallCreateSecret newSecret # rcalls)
      | (Inr newState, rcalls) \<Rightarrow>
          (let reordered = newState\<lparr>Fields := reorderFieldsToMatchPlan (Fields plan) (Fields newState)\<rparr>;
               withArgs = (case SshKeyArgs plan of
                             None \<Rightarrow> reordered
                           | Some a \<Rightarrow> reordered\<lparr>SshKeyArgs := Some a\<rparr>);
               final = withArgs\<lparr>Fields := map (preserveAttachmentCreate (Fields plan)) (Fields withArgs)\<rparr>
           in (\<lparr>Diagnostics = getDiags, State = Some final\<rparr>,
               r2, calls @ CallCreateSecret newSecret # rcalls))))))"

definition Read ::
    "'r client option \<Rightarrow> 'r \<Rightarrow> diagnostic list \<Rightarrow> SecretResourceState \<Rightarrow>
     ResourceResponse \<times> 'r \<times> remote_call list" where
  "Read client r getDiags state =
     (if HasError getDiags then (\<lparr>Diagnostics = getDiags, State = None\<rparr>, r, [])
      else case client of
        None \<Rightarrow> (\<lparr>Diagnostics = getDiags @ [client_not_configured], State = None\<rparr>, r, [])
      | Some c \<Rightarrow>
     (case readSecretByID c r (ValueString (ID state)) of
        (Inl readDiags, rcalls) \<Rightarrow>
          (\<lparr>Diagnostics = getDiags @ readDiags, State = None\<rparr>, r, rcalls)
      | (Inr newState, rcalls) \<Rightarrow>
          (let reordered = newState\<lparr>Fields := reorderFieldsToMatchPlan (Fields state) (Fields newState)\<rparr>;
               withArgs = (case SshKeyArgs state of
                             None \<Rightarrow> reordered
                           | Some a \<Rightarrow> reordered\<lparr>SshKeyArgs := Some a\<rparr>);
               final = withArgs\<lparr>Fields :=
                  map (preserveAttachmentRead (hasSshKeyArgs state) (Fields state)) (Fields withArgs)\<rparr>
           in (\<lparr>Diagnostics = getDiags, State = Some final\<rparr>, r, rcalls))))"

definition Update ::
    "'r client option \<Rightarrow> 'r \<Rightarrow> diagnostic list \<Rightarrow> SecretResourceState \<Rightarrow> SecretResourceState \<Rightarrow>
     ResourceResponse \<times> 'r \<times> remote_call list" where
  "Update client r getDiags plan state =
     (if HasError getDiags then (\<lparr>Diagnostics = getDiags, State = None\<rparr>, r, [])
      else case client of
        None \<Rightarrow> (\<lparr>Diagnostics = getDiags @ [client_not_configured], State = None\<rparr>, r, [])
      | Some c \<Rightarrow>
     (case getSecretData c r (plan\<lparr>SshKeyArgs := None\<rparr>) of
        (Inl err, calls) \<Rightarrow>
          (\<lparr>Diagnostics = getDiags @ [ErrorCause ''Secret Data Error''
               ''Failed to prepare secret data: '' err], State = None\<rparr>, r, calls)
      | (Inr prepared, calls) \<Rightarrow>
     (let preserved = prepared\<lparr>srv_Fields :=
            map (preserveStateValue (hasSshKeyArgs state) (Fields state) (Fields plan))
                (srv_Fields prepared)\<rparr>;
          us = ValueString (ID state)
      in case Atoi us of
        (ustoi, Some e) \<Rightarrow>
          (\<lparr>Diagnostics = getDiags @ [ErrorCause ''Error converting ID from string to int''
               ''Failed to update secret: '' (AtoiError us e)], State = None\<rparr>, r, calls)
      | (ustoi, None) \<Rightarrow>
     (let updatedSecret = preserved\<lparr>srv_ID := ustoi\<rparr>
      in case UpdateSecret c r updatedSecret of
        (Inl err, r1) \<Rightarrow>
          (\<lparr>Diagnostics = getDiags @ [ErrorCause ''Secret Update Error''
               ''Failed to update secret: '' (ClientError err)], State = None\<rparr>,
           r1, calls @ [CallUpdateSecret updatedSecret])
      | (Inr echoed, r1) \<Rightarrow>
     (case readSecretByID c r1 us of
        (Inl readDiags, rcalls) \<Rightarrow>
          (\<lparr>Diagnostics = getDiags @ readDiags, State = None\<rparr>,
           r1, calls @ CallUpdateSecret updatedSecret # rcalls)
      | (Inr newState, rcalls) \<Rightarrow>
          (let reordered = newState\<lparr>Fields := reorderFieldsToMatchPlan (Fields plan) (Fields newState)\<rparr>;
               withArgs = (case SshKeyArgs plan of
                             None \<Rightarrow> reordered
                           | Some a \<Rightarrow> reordered\<lparr>SshKeyArgs := Some a\<rparr>);
               final = withArgs\<lparr>Fields :=
                  map (preserveAttachmentUpdate (hasSshKeyArgs state) (Fields state) (Fields plan))
                      (Fields withArgs)\<rparr>
           in (\<lparr>Diagnostics = getDiags, State = Some final\<rparr>,
               r1, calls @ CallUpdateSecret updatedSecret # rcalls)))))))"

text \<open>
  \<^verbatim>\<open>Delete\<close>: the error of \<^verbatim>\<open>strconv.Atoi\<close> is logged and nothing else; the number that
  \<^verbatim>\<open>Atoi\<close> returned goes to the remote store in either case.
\<close>

definition Delete ::
    "'r client option \<Rightarrow> 'r \<Rightarrow> diagnostic list \<Rightarrow> SecretResourceState \<Rightarrow>
     ResourceResponse \<times> 'r \<times> remote_call list" where
  "Delete client r getDiags state =
     (if HasError getDiags then (\<lparr>Diagnostics = getDiags, State = None\<rparr>, r, [])
      else case client of
        None \<Rightarrow> (\<lparr>Diagnostics = getDiags @ [client_not_configured], State = None\<rparr>, r, [])
      | Some c \<Rightarrow>
     (case Atoi (ValueString (ID state)) of
        (idtoi, err) \<Rightarrow>
     (case DeleteSecret c r idtoi of
        (Some derr, r1) \<Rightarrow>
          (\<lparr>Diagnostics = getDiags @ [ErrorCause ''Secret Deletion Error''
               ''Failed to delete secret: '' (ClientError derr)], State = None\<rparr>,
           r1, [CallDeleteSecret idtoi])
      | (None, r1) \<Rightarrow>
          (\<lparr>Diagnostics = getDiags, State = None\<rparr>, r1, [CallDeleteSecret idtoi]))))"


section \<open>A small remote store\<close>

text \<open>
  A remote store that keeps secrets by number and returns what it was given: one template,
  number 1, with a user name and a password field; secret 7 is the one that gets created.
\<close>

definition example_template :: server_SecretTemplate where
  "example_template =
     \<lparr>tmpl_Fields =
        [\<lparr>tf_SecretTemplateFieldID = 101, tf_Name = ''Username'', tf_FieldSlugName = ''username'',
          tf_Description = [], tf_IsFile = False, tf_IsNotes = False, tf_IsPassword = False\<rparr>,
         \<lparr>tf_SecretTemplateFieldID = 102, tf_Name = ''Password'', tf_FieldSlugName = ''password'',
          tf_Description = [], tf_IsFile = False, tf_IsNotes = False, tf_IsPassword = True\<rparr>]\<rparr>"

definition store_client :: "(int \<rightharpoonup> server_Secret) client" where
  "store_client =
     \<lparr>SecretTemplate = (\<lambda>r i. if i = 1 then Inr example_template else Inl ''no such template''),
      GeneratePassword = (\<lambda>r slug t. (Inr ''generated'', r)),
      CreateSecret = (\<lambda>r s. (Inr (s\<lparr>srv_ID := 7\<rparr>), r(7 \<mapsto> s\<lparr>srv_ID := 7\<rparr>))),
      Secret = (\<lambda>r i. case r i of None \<Rightarrow> Inl ''no such secret'' | Some s \<Rightarrow> Inr s),
      UpdateSecret = (\<lambda>r s. (Inr s, r(srv_ID s \<mapsto> s))),
      DeleteSecret = (\<lambda>r i. (None, r(i := None)))\<rparr>"

text \<open>A declared field with a name and a value and nothing else, and a state without fields.\<close>

definition declaredField :: "string \<Rightarrow> string tfval \<Rightarrow> SecretField" where
  "declaredField n v =
     \<lparr>FieldName = Known n, ItemValue = v, ItemID = Null, FieldID = Null, FileAttachmentID = Null,
      Slug = Null, FieldDescription = Null, Filename = Null, IsFile = Null, IsNotes = Null,
      IsPassword = Null, IsList = Null, ListType = Null\<rparr>"

definition bareState :: "string \<Rightarrow> SecretField list \<Rightarrow> SecretResourceState" where
  "bareState i fs =
     \<lparr>ID = Known i, Name = Known ''db'', FolderID = Known ''3'', SiteID = Known ''1'',
      SecretTemplateID = Known ''1'', Fields = fs, SshKeyArgs = None, Active = Known True,
      SecretPolicyID = Null, PasswordTypeWebScriptID = Null, LauncherConnectAsSecretID = Null,
      CheckOutIntervalMinutes = Null, CheckedOut = Null, CheckOutEnabled = Null,
      AutoChangeEnabled = Null, CheckOutChangePasswordEnabled = Null, DelayIndexing = Null,
      EnableInheritPermissions = Null, EnableInheritSecretPolicy = Null, ProxyEnabled = Null,
      RequiresComment = Null, SessionRecordingEnabled = Null,
      WebLauncherRequiresIncognitoMode = Null\<rparr>"


section \<open>Notions used to state the properties of the resource\<close>

text \<open>A value that is known, as opposed to null or unknown.\<close>

fun isKnown :: "'a tfval \<Rightarrow> bool" where
  "isKnown (Known v) = True"
| "isKnown Null = False"
| "isKnown Unknown = False"

text \<open>The key under which \<^verbatim>\<open>reorderFieldsToMatchPlan\<close> files a field: its lower-cased name.\<close>

definition lname :: "SecretField \<Rightarrow> string" where
  "lname f = ToLower (ValueString (FieldName f))"

text \<open>
  The names and values that an operation submitted to the remote store, read off its calls,
  and the names and values of the state it set.
\<close>

definition submitted :: "remote_call list \<Rightarrow> (string \<times> string) list" where
  "submitted calls =
     concat (map (\<lambda>call. case call of
                     CallUpdateSecret s \<Rightarrow> map (\<lambda>f. (srvf_FieldName f, srvf_ItemValue f)) (srv_Fields s)
                   | CallCreateSecret s \<Rightarrow> map (\<lambda>f. (srvf_FieldName f, srvf_ItemValue f)) (srv_Fields s)
                   | _ \<Rightarrow> []) calls)"

definition recorded :: "ResourceResponse \<Rightarrow> (string tfval \<times> string tfval) list" where
  "recorded resp =
     (case State resp of None \<Rightarrow> [] | Some ns \<Rightarrow> map (\<lambda>f. (FieldName f, ItemValue f)) (Fields ns))"

text \<open>A store that holds secret 7, whose password is empty.\<close>

definition example_secret :: server_Secret where
  "example_secret =
     populateSecret (bareState ''7'' []) 3 1 1
       [\<lparr>srvf_ItemID = 0, srvf_FieldID = 102, srvf_FileAttachmentID = 0,
         srvf_FieldName = ''Password'', srvf_Slug = ''password'', srvf_FieldDescription = [],
         srvf_Filename = [], srvf_ItemValue = [], srvf_IsFile = False, srvf_IsNotes = False,
         srvf_IsPassword = True\<rparr>]
       \<lparr>srv_ID := 7\<rparr>"

definition example_store :: "int \<rightharpoonup> server_Secret" where
  "example_store = [7 \<mapsto> example_secret]"


section \<open>Properties of the ephemeral resource\<close>

lemma is_error_simps [simp]:
  "is_error (fetch_warning i err) = False" "is_error (field_not_found fld) = True"
  "is_warning (fetch_warning i err) = True" "is_warning (field_not_found fld) = False"
  by (simp_all add: fetch_warning_def field_not_found_def)











text \<open>
  Claim C10. With the provider configured, \<^verbatim>\<open>Open\<close> on an empty list of ids or a null field
  name returns the single error \<^verbatim>\<open>Missing Required Field\<close> and fetches nothing; \<^verbatim>\<open>Renew\<close> on
  private data with an empty list of ids or an empty field name returns a single error and
  fetches nothing.
\<close>

theorem ephemeral_required_fields:
  "(\<not> HasError getDiags \<and> (IDs data = [] \<or> Field data = Null) \<longrightarrow>
      Open (Some c) r now (getDiags, data) =
        \<lparr>open_Diagnostics = getDiags @ [ErrorDiag ''Missing Required Field''
            ''Both secret_ids and field are required''],
         open_Result = None, open_RenewAt = None, open_Private = None, open_fetched = []\<rparr>)
   \<and> (pd_IDs pd = [] \<or> pd_Field pd = [] \<longrightarrow>
      Renew client r now (Stored pd) =
        Some \<lparr>renew_Diagnostics = [ErrorDiag ''Missing Private Data Fields''
                ''Secret ID and field are required.''],
              renew_RenewAt = None, renew_Private = None, renew_fetched = []\<rparr>)"
  by (auto simp: Open_def Renew_def)

theorem ephemeral_required_fields_witness:
  "(\<not> HasError [] \<and> (IDs (example_config\<lparr>IDs := []\<rparr>) = [] \<or> Field (example_config\<lparr>IDs := []\<rparr>) = Null))
   \<and> open_fetched (Open (Some example_client) () 0 ([], example_config\<lparr>IDs := []\<rparr>)) = []
   \<and> HasError (open_Diagnostics (Open (Some example_client) () 0 ([], example_config\<lparr>IDs := []\<rparr>)))
   \<and> (pd_IDs \<lparr>pd_IDs = [Known 1], pd_Field = [], pd_Secrets = []\<rparr> = []
        \<or> pd_Field \<lparr>pd_IDs = [Known 1], pd_Field = [], pd_Secrets = []\<rparr> = [])
   \<and> map_option renew_fetched
        (Renew (Some example_client) () 0 (Stored \<lparr>pd_IDs = [Known 1], pd_Field = [], pd_Secrets = []\<rparr>))
       = Some []
   \<and> map_option (HasError \<circ> renew_Diagnostics)
        (Renew (Some example_client) () 0 (Stored \<lparr>pd_IDs = [Known 1], pd_Field = [], pd_Secrets = []\<rparr>))
       = Some True"
  using ephemeral_required_fields [of "[]" "example_config\<lparr>IDs := []\<rparr>" example_client "()" 0
      "\<lparr>pd_IDs = [Known 1], pd_Field = [], pd_Secrets = []\<rparr>" "Some example_client"]
  by (simp add: HasError_def example_config_def)






section \<open>Properties of the secret resource\<close>

subsection \<open>The state read back from the remote store\<close>

lemma ItemValue_flattenField [simp]: "ItemValue (flattenField f) = Known (srvf_ItemValue f)"
  by (simp add: flattenField_def Let_def)

lemma FieldName_flattenField [simp]: "FieldName (flattenField f) = Known (srvf_FieldName f)"
  by (simp add: flattenField_def Let_def)

lemma Fields_flattenSecret [simp]: "Fields (flattenSecret s) = map flattenField (srv_Fields s)"
  by (simp add: flattenSecret_def)
lemma indexFields_eq:
  "indexFields fs m = m ++ map_of (rev (map (\<lambda>f. (lname f, f)) fs))"
proof (induction fs arbitrary: m)
  case Nil
  show ?case by simp
next
  case (Cons f fs)
  have "m(lname f \<mapsto> f) = m ++ [lname f \<mapsto> f]" by simp
  then show ?case
    by (simp add: Cons.IH lname_def del: map_add_upd)
qed

lemma walkPlan_eq:
  "walkPlan m ps acc = acc @ List.map_filter (\<lambda>p. m (lname p)) ps"
  by (induction ps arbitrary: acc) (simp_all add: List.map_filter_simps lname_def split: option.split)

lemma appendMissing_ext:
  "\<exists>ext. appendMissing fs acc = acc @ ext \<and> set ext \<subseteq> set fs"
proof (induction fs arbitrary: acc)
  case Nil
  show ?case by simp
next
  case (Cons f fs)
  show ?case
  proof (cases "nameFound f acc")
    case True
    obtain ext where "appendMissing fs acc = acc @ ext" "set ext \<subseteq> set fs"
      using Cons.IH by blast
    then show ?thesis using True by auto
  next
    case False
    obtain ext where "appendMissing fs (acc @ [f]) = (acc @ [f]) @ ext" "set ext \<subseteq> set fs"
      using Cons.IH by blast
    then have "appendMissing (f # fs) acc = acc @ (f # ext) \<and> set (f # ext) \<subseteq> set (f # fs)"
      using False by auto
    then show ?thesis by blast
  qed
qed

lemma indexFields_mem: "indexFields fs Map.empty k = Some f \<Longrightarrow> f \<in> set fs"
  by (auto simp: indexFields_eq dest!: map_of_SomeD)

lemma set_reorder: "set (reorderFieldsToMatchPlan ps fs) \<subseteq> set fs"
proof -
  obtain ext where e: "reorderFieldsToMatchPlan ps fs =
      List.map_filter (\<lambda>p. indexFields fs Map.empty (lname p)) ps @ ext" "set ext \<subseteq> set fs"
    using appendMissing_ext [of fs "walkPlan (indexFields fs Map.empty) ps []"]
    by (auto simp: reorderFieldsToMatchPlan_def walkPlan_eq)
  have "set (List.map_filter (\<lambda>p. indexFields fs Map.empty (lname p)) ps) \<subseteq> set fs"
    by (auto simp: List.map_filter_def dest: indexFields_mem)
  then show ?thesis using e by auto
qed

lemma attachmentFrom_keeps [simp]:
  "ItemValue (attachmentFrom old f) = ItemValue f" "FieldName (attachmentFrom old f) = FieldName f"
  by (simp_all add: attachmentFrom_def Let_def)

lemma preserveAttachmentRead_keeps [simp]:
  "ItemValue (preserveAttachmentRead h S f) = ItemValue f"
  "FieldName (preserveAttachmentRead h S f) = FieldName f"
  by (simp_all add: preserveAttachmentRead_def Let_def split: option.split)

lemma preserveAttachmentUpdate_keeps [simp]:
  "ItemValue (preserveAttachmentUpdate h S P f) = ItemValue f"
  "FieldName (preserveAttachmentUpdate h S P f) = FieldName f"
  by (simp_all add: preserveAttachmentUpdate_def Let_def split: option.split)

lemma preserveAttachmentCreate_keeps [simp]:
  "ItemValue (preserveAttachmentCreate P f) = ItemValue f"
  "FieldName (preserveAttachmentCreate P f) = FieldName f"
  by (simp_all add: preserveAttachmentCreate_def split: option.split)

lemma readSecretByID_Inr:
  "readSecretByID c r i = (Inr ns, calls) \<Longrightarrow>
     \<exists>sec. Secret c r (fst (Atoi i)) = Inr sec \<and> ns = flattenSecret sec \<and> snd (Atoi i) = None
           \<and> calls = [CallSecret (fst (Atoi i))]"
  by (auto simp: readSecretByID_def split: prod.splits option.splits sum.splits)

lemma Read_State:
  assumes "State (fst (Read client r ds state)) = Some ns"
  shows "\<exists>c (sec :: server_Secret). client = Some c \<and> Secret c r (fst (Atoi (ValueString (ID state)))) = Inr sec
     \<and> Fields ns = map (preserveAttachmentRead (hasSshKeyArgs state) (Fields state))
          (reorderFieldsToMatchPlan (Fields state) (map flattenField (srv_Fields sec)))"
  using assms
  by (auto simp: Read_def Let_def split: if_splits option.splits prod.splits sum.splits
      dest!: readSecretByID_Inr)


lemma Create_State:
  assumes "State (fst (Create client r ds plan)) = Some ns"
  shows "\<exists>sec :: server_Secret. Fields ns = map (preserveAttachmentCreate (Fields plan))
          (reorderFieldsToMatchPlan (Fields plan) (map flattenField (srv_Fields sec)))"
  using assms
  by (auto simp: Create_def Let_def split: if_splits option.splits prod.splits sum.splits
      dest!: readSecretByID_Inr)

lemma getSecretData_calls:
  "getSecretData c r st = (res, calls) \<Longrightarrow> CallUpdateSecret sub \<notin> set calls"
  by (auto simp: getSecretData_def split: prod.splits option.splits sum.splits)

lemma readSecretByID_calls:
  "readSecretByID c r i = (res, calls) \<Longrightarrow> CallUpdateSecret sub \<notin> set calls"
  by (auto simp: readSecretByID_def split: prod.splits option.splits sum.splits)

lemma Update_submits:
  assumes "CallUpdateSecret sub \<in> set (snd (snd (Update client r ds plan state)))"
  shows "\<exists>c prepared. client = Some c
     \<and> fst (getSecretData c r (plan\<lparr>SshKeyArgs := None\<rparr>)) = Inr prepared
     \<and> sub = prepared\<lparr>srv_Fields :=
            map (preserveStateValue (hasSshKeyArgs state) (Fields state) (Fields plan))
                (srv_Fields prepared),
          srv_ID := fst (Atoi (ValueString (ID state)))\<rparr>"
  using assms
  by (auto simp: Update_def Let_def split: if_splits option.splits prod.splits sum.splits
      dest: getSecretData_calls readSecretByID_calls)

lemma Update_State:
  assumes "State (fst (Update client r ds plan state)) = Some ns"
  shows "\<exists>c sub (sec :: server_Secret). client = Some c
     \<and> CallUpdateSecret sub \<in> set (snd (snd (Update client r ds plan state)))
     \<and> Secret c (fst (snd (Update client r ds plan state))) (srv_ID sub) = Inr sec
     \<and> Fields ns = map (preserveAttachmentUpdate (hasSshKeyArgs state) (Fields state) (Fields plan))
          (reorderFieldsToMatchPlan (Fields plan) (map flattenField (srv_Fields sec)))"
  using assms
  by (auto simp: Update_def Let_def split: if_splits option.splits prod.splits sum.splits
      dest!: readSecretByID_Inr)

lemma known_fields:
  "set fs \<subseteq> set (map flattenField xs) \<Longrightarrow> list_all (\<lambda>f :: SecretField. isKnown (ItemValue f)) fs"
  by (auto simp: list_all_iff)

text \<open>
  Claim C9. \<^verbatim>\<open>flattenSecret\<close> stores every remote field value as a known string, the empty
  one as the known empty string; so the state that \<^verbatim>\<open>Read\<close>, \<^verbatim>\<open>Create\<close> or \<^verbatim>\<open>Update\<close> sets
  has a known value for every field, never a null one.
\<close>

theorem durable_values_known:
  "map ItemValue (Fields (flattenSecret secret)) = map (\<lambda>f. Known (srvf_ItemValue f)) (srv_Fields secret)
   \<and> (\<forall>ns :: SecretResourceState. State (fst (Read client r ds state)) = Some ns \<longrightarrow>
         list_all (\<lambda>f :: SecretField. isKnown (ItemValue f)) (Fields ns))
   \<and> (\<forall>ns :: SecretResourceState. State (fst (Create client r ds plan)) = Some ns \<longrightarrow>
         list_all (\<lambda>f :: SecretField. isKnown (ItemValue f)) (Fields ns))
   \<and> (\<forall>ns :: SecretResourceState. State (fst (Update client r ds plan state)) = Some ns \<longrightarrow>
         list_all (\<lambda>f :: SecretField. isKnown (ItemValue f)) (Fields ns))"
proof (intro conjI allI impI)
  show "map ItemValue (Fields (flattenSecret secret)) = map (\<lambda>f. Known (srvf_ItemValue f)) (srv_Fields secret)"
    by simp
next
  fix ns :: SecretResourceState assume a: "State (fst (Read client r ds state)) = Some ns"
  from Read_State [OF a] obtain c and sec :: server_Secret where
    "Fields ns = map (preserveAttachmentRead (hasSshKeyArgs state) (Fields state))
          (reorderFieldsToMatchPlan (Fields state) (map flattenField (srv_Fields sec)))"
    by blast
  then show "list_all (\<lambda>f :: SecretField. isKnown (ItemValue f)) (Fields ns)"
    using known_fields [OF set_reorder, of "Fields state" "srv_Fields sec"]
    by (simp add: list_all_iff)
next
  fix ns :: SecretResourceState assume a: "State (fst (Create client r ds plan)) = Some ns"
  from Create_State [OF a] obtain sec :: server_Secret where
    "Fields ns = map (preserveAttachmentCreate (Fields plan))
          (reorderFieldsToMatchPlan (Fields plan) (map flattenField (srv_Fields sec)))"
    by blast
  then show "list_all (\<lambda>f :: SecretField. isKnown (ItemValue f)) (Fields ns)"
    using known_fields [OF set_reorder, of "Fields plan" "srv_Fields sec"]
    by (simp add: list_all_iff)
next
  fix ns :: SecretResourceState assume a: "State (fst (Update client r ds plan state)) = Some ns"
  from Update_State [OF a] obtain c sub and sec :: server_Secret where
    "Fields ns = map (preserveAttachmentUpdate (hasSshKeyArgs state) (Fields state) (Fields plan))
          (reorderFieldsToMatchPlan (Fields plan) (map flattenField (srv_Fields sec)))"
    by blast
  then show "list_all (\<lambda>f :: SecretField. isKnown (ItemValue f)) (Fields ns)"
    using known_fields [OF set_reorder, of "Fields plan" "srv_Fields sec"]
    by (simp add: list_all_iff)
qed

theorem durable_values_known_witness:
  "(case State (fst (Read (Some store_client) example_store []
        (bareState ''7'' [declaredField ''password'' Null]))) of
      None \<Rightarrow> False
    | Some ns \<Rightarrow> list_all (\<lambda>f :: SecretField. isKnown (ItemValue f)) (Fields ns))
   \<and> (case State (fst (Create (Some store_client) example_store []
        (bareState [] [declaredField ''username'' (Known [])]))) of
      None \<Rightarrow> False
    | Some ns \<Rightarrow> list_all (\<lambda>f :: SecretField. isKnown (ItemValue f)) (Fields ns))
   \<and> (case State (fst (Update (Some store_client) example_store []
        (bareState ''7'' [declaredField ''username'' Null])
        (bareState ''7'' [declaredField ''username'' Null]))) of
      None \<Rightarrow> False
    | Some ns \<Rightarrow> list_all (\<lambda>f :: SecretField. isKnown (ItemValue f)) (Fields ns))"
proof -
  have "State (fst (Read (Some store_client) example_store []
        (bareState ''7'' [declaredField ''password'' Null]))) \<noteq> None"
    by code_simp
  then obtain n1 :: SecretResourceState where r: "State (fst (Read (Some store_client) example_store []
        (bareState ''7'' [declaredField ''password'' Null]))) = Some n1"
    by blast
  have "State (fst (Create (Some store_client) example_store []
        (bareState [] [declaredField ''username'' (Known [])]))) \<noteq> None"
    by code_simp
  then obtain n2 :: SecretResourceState where c: "State (fst (Create (Some store_client) example_store []
        (bareState [] [declaredField ''username'' (Known [])]))) = Some n2"
    by blast
  have "State (fst (Update (Some store_client) example_store []
        (bareState ''7'' [declaredField ''username'' Null])
        (bareState ''7'' [declaredField ''username'' Null]))) \<noteq> None"
    by code_simp
  then obtain n3 :: SecretResourceState where u: "State (fst (Update (Some store_client) example_store []
        (bareState ''7'' [declaredField ''username'' Null])
        (bareState ''7'' [declaredField ''username'' Null]))) = Some n3"
    by blast
  show ?thesis
    using r c u
      durable_values_known [of example_secret "Some store_client" example_store "[]"
        "bareState ''7'' [declaredField ''password'' Null]"
        "bareState [] [declaredField ''username'' (Known [])]"]
      durable_values_known [of example_secret "Some store_client" example_store "[]"
        "bareState ''7'' [declaredField ''username'' Null]"
        "bareState ''7'' [declaredField ''username'' Null]"]
    by simp
qed

subsection \<open>Identifiers that do not parse\<close>

lemma Atoi_abc: "Atoi ''abc'' = (0, Some ErrSyntax)"
  by (simp add: Atoi_def ParseUint_def is_digit_def)

text \<open>
  Claim C5 fails for \<^verbatim>\<open>Delete\<close>: with the identifier \<^verbatim>\<open>abc\<close> in the state, the operation
  asks the remote store to delete secret 0, whatever the client and the store are; with the
  store of the example it ends without any diagnostic.
\<close>

theorem delete_calls_remote_on_bad_id:
  "snd (snd (Delete (Some c) r [] (state\<lparr>ID := Known ''abc''\<rparr>))) = [CallDeleteSecret 0]
   \<and> fst (Delete (Some store_client) example_store [] (bareState ''abc'' []))
       = \<lparr>Diagnostics = [], State = None\<rparr>"
proof
  show "snd (snd (Delete (Some c) r [] (state\<lparr>ID := Known ''abc''\<rparr>))) = [CallDeleteSecret 0]"
    by (simp add: Delete_def HasError_def Atoi_abc split: prod.split option.split)
  show "fst (Delete (Some store_client) example_store [] (bareState ''abc'' []))
       = \<lparr>Diagnostics = [], State = None\<rparr>"
    by (simp add: Delete_def HasError_def Atoi_abc bareState_def store_client_def)
qed

end
